theory Spec2Isabelle
  imports Main
begin

section \<open>The model editor view (view/model-editor/ModelEditor.tsx)\<close>

subsection \<open>Data\<close>

text \<open>
  Modelled from the spec: the declarations of \<^verbatim>\<open>ModeledMethod\<close>
  (model-editor/modeled-method) and \<^verbatim>\<open>ExternalApiUsage\<close>
  (model-editor/external-api-usage) are not among the sources. The view reads one field
  of each: \<^verbatim>\<open>value.type\<close> (the model, or the explicit \<^verbatim>\<open>"none"\<close>) and
  \<^verbatim>\<open>method.signature\<close> (the stable key of a call site). Every other field
  lives in the extension slot of the record, so all results hold for any such fields.
\<close>

record ModeledMethod =
  type :: string

record ExternalApiUsage =
  signature :: string

text \<open>
  \<^verbatim>\<open>Record<string, ModeledMethod>\<close>: a JavaScript object used as a dictionary from
  signatures to models. Object spread \<^verbatim>\<open>{...a, ...b}\<close> is \<open>a ++ b\<close>: the keys of
  both, and \<open>b\<close> wins where both have a key.
\<close>

type_synonym 'm ModeledMethods = "string \<rightharpoonup> 'm ModeledMethod_scheme"

text \<open>
  \<^verbatim>\<open>Object.fromEntries(Object.entries(o).filter(([, value]) => p(value)))\<close>: the
  entries of \<open>o\<close> whose value passes \<open>p\<close>, under the keys they had.
\<close>

definition filterEntries :: "('v \<Rightarrow> bool) \<Rightarrow> ('k \<rightharpoonup> 'v) \<Rightarrow> ('k \<rightharpoonup> 'v)" where
  "filterEntries p obj = (\<lambda>k. case obj k of
       None \<Rightarrow> None
     | Some v \<Rightarrow> (if p v then Some v else None))"

text \<open>
  Modelled from the spec: the class \<^verbatim>\<open>InProgressMethods\<close>
  (model-editor/shared/in-progress-methods) is not among the sources. The spec gives it as
  a mapping from package name to the set of signatures being generated for that package,
  with copy-on-write updates: \<^verbatim>\<open>setPackageMethods\<close> returns a new value in which the
  package has the given set.
\<close>

type_synonym InProgressMethods = "string \<rightharpoonup> string set"

definition setPackageMethods :: "InProgressMethods \<Rightarrow> string \<Rightarrow> string set \<Rightarrow> InProgressMethods" where
  "setPackageMethods methodMap packageName methods = methodMap(packageName \<mapsto> methods)"

text \<open>
  The messages the view receives (\<^verbatim>\<open>ToModelEditorMessage\<close>, one constructor for each
  \<^verbatim>\<open>case\<close> of the listener's \<^verbatim>\<open>switch (msg.t)\<close>), with their payloads.
\<close>

datatype ('m, 'u, 'v) ToModelEditorMessage =
    SetModelEditorViewState 'v
  | SetExternalApiUsages "'u ExternalApiUsage_scheme list"
  | LoadModeledMethods "'m ModeledMethods"
  | AddModeledMethods "'m ModeledMethods"
  | SetInProgressMethods string "string list"

text \<open>
  \<^verbatim>\<open>evt.data\<close> is not checked at run time. It is one of the messages above; or
  another value, whose tag \<^verbatim>\<open>t\<close> is none of the five and reaches
  \<^verbatim>\<open>default:\<close>; or \<^verbatim>\<open>null\<close> or \<^verbatim>\<open>undefined\<close>, which has no
  property to read.
\<close>

datatype ('m, 'u, 'v) EventData =
    Message "('m, 'u, 'v) ToModelEditorMessage"
  | OtherTag string
  | NullOrUndefined

record ('m, 'u, 'v) MessageEvent =
  origin :: string
  data :: "('m, 'u, 'v) EventData"

text \<open>The one message to the extension host that the save handlers post.\<close>

datatype ('m, 'u) FromModelEditorMessage =
    SaveModeledMethods "'u ExternalApiUsage_scheme list" "'m ModeledMethods"

text \<open>
  The component's state: one field for each \<^verbatim>\<open>useState\<close>, then the two output
  channels the handlers write to, \<^verbatim>\<open>vscode.postMessage\<close> and
  \<^verbatim>\<open>console.error\<close>, as the lists of what was sent so far.
\<close>

record ('m, 'u, 'v) ModelEditor =
  viewState :: "'v option"
  externalApiUsages :: "'u ExternalApiUsage_scheme list"
  modifiedSignatures :: "string set"
  inProgressMethods :: InProgressMethods
  hideModeledApis :: bool
  modeledMethods :: "'m ModeledMethods"
  posted :: "('m, 'u) FromModelEditorMessage list"
  console :: "string list"

text \<open>
  The state after the first render: the \<^verbatim>\<open>useState\<close> initial values for the
  component's props.
\<close>

definition initialState ::
  "'v option \<Rightarrow> 'u ExternalApiUsage_scheme list \<Rightarrow> 'm ModeledMethods \<Rightarrow> bool \<Rightarrow> ('m, 'u, 'v) ModelEditor" where
  "initialState initialViewState initialExternalApiUsages initialModeledMethods initialHideModeledApis =
     \<lparr>viewState = initialViewState,
      externalApiUsages = initialExternalApiUsages,
      modifiedSignatures = {},
      inProgressMethods = Map.empty,
      hideModeledApis = initialHideModeledApis,
      modeledMethods = initialModeledMethods,
      posted = [],
      console = []\<rparr>"

subsection \<open>The message listener\<close>

text \<open>
  What a handler can throw: the unreachable case of a dispatcher,
  \<^verbatim>\<open>new Error(message)\<close>, and the \<^verbatim>\<open>TypeError\<close> of the language for a
  property read on \<^verbatim>\<open>null\<close> or \<^verbatim>\<open>undefined\<close>.
\<close>

datatype error = UnknownMessageKind string | Error string | TypeError

text \<open>
  Modelled from the spec: \<^verbatim>\<open>assertNever\<close> (common/helpers-pure) is not among the
  sources. The spec gives it as the explicit unreachable-case failure: a hard error
  that reaches the caller of the dispatcher.
\<close>

definition assertNever :: "string \<Rightarrow> error + 'a" where
  "assertNever t = Inl (UnknownMessageKind t)"

definition loadModeledMethods :: "'m ModeledMethods \<Rightarrow> ('m, 'u, 'v) ModelEditor \<Rightarrow> ('m, 'u, 'v) ModelEditor" where
  "loadModeledMethods msgModeledMethods s =
     s\<lparr>modeledMethods := msgModeledMethods ++ modeledMethods s\<rparr>"

definition addModeledMethods :: "'m ModeledMethods \<Rightarrow> ('m, 'u, 'v) ModelEditor \<Rightarrow> ('m, 'u, 'v) ModelEditor" where
  "addModeledMethods msgModeledMethods s =
     s\<lparr>modeledMethods :=
         msgModeledMethods ++ filterEntries (\<lambda>value. type value \<noteq> ''none'') (modeledMethods s),
       modifiedSignatures := modifiedSignatures s \<union> dom msgModeledMethods\<rparr>"

text \<open>\<^verbatim>\<open>evt.origin.replace(/\n|\r/g, "")\<close>: every line feed and carriage return removed.\<close>

definition sanitizeOrigin :: "string \<Rightarrow> string" where
  "sanitizeOrigin s = filter (\<lambda>c. c \<noteq> CHR 0x0A \<and> c \<noteq> CHR 0x0D) s"

text \<open>
  The listener, for the window whose origin is \<open>windowOrigin\<close>. A thrown error is
  \<open>Inl\<close>: \<^verbatim>\<open>switch (msg.t)\<close> reads \<^verbatim>\<open>msg.t\<close> first, which throws when
  \<^verbatim>\<open>evt.data\<close> is \<^verbatim>\<open>null\<close> or \<^verbatim>\<open>undefined\<close>, and \<^verbatim>\<open>default:\<close>
  calls \<^verbatim>\<open>assertNever\<close>. Nothing was written before either, so the state then is
  the one the listener was called in.
\<close>

fun listener ::
  "string \<Rightarrow> ('m, 'u, 'v) ModelEditor \<Rightarrow> ('m, 'u, 'v) MessageEvent \<Rightarrow> error + ('m, 'u, 'v) ModelEditor" where
  "listener windowOrigin s evt =
     (if origin evt = windowOrigin then
        (case data evt of
           NullOrUndefined \<Rightarrow> Inl TypeError
         | Message (SetModelEditorViewState v) \<Rightarrow> Inr (s\<lparr>viewState := Some v\<rparr>)
         | Message (SetExternalApiUsages us) \<Rightarrow> Inr (s\<lparr>externalApiUsages := us\<rparr>)
         | Message (LoadModeledMethods ms) \<Rightarrow> Inr (loadModeledMethods ms s)
         | Message (AddModeledMethods ms) \<Rightarrow> Inr (addModeledMethods ms s)
         | Message (SetInProgressMethods packageName ps) \<Rightarrow>
             Inr (s\<lparr>inProgressMethods := setPackageMethods (inProgressMethods s) packageName (set ps)\<rparr>)
         | OtherTag t \<Rightarrow> assertNever t)
      else
        Inr (s\<lparr>console := console s @ [''Invalid event origin '' @ sanitizeOrigin (origin evt)]\<rparr>))"

subsection \<open>The handlers of user actions\<close>

definition onChange ::
  "string \<Rightarrow> 'u ExternalApiUsage_scheme \<Rightarrow> 'm ModeledMethod_scheme \<Rightarrow> ('m, 'u, 'v) ModelEditor \<Rightarrow> ('m, 'u, 'v) ModelEditor" where
  "onChange modelName method model s =
     s\<lparr>modeledMethods := (modeledMethods s)(signature method \<mapsto> model),
       modifiedSignatures := modifiedSignatures s \<union> {signature method}\<rparr>"

definition onSaveAllClick :: "('m, 'u, 'v) ModelEditor \<Rightarrow> ('m, 'u, 'v) ModelEditor" where
  "onSaveAllClick s =
     s\<lparr>posted := posted s @ [SaveModeledMethods (externalApiUsages s) (modeledMethods s)],
       modifiedSignatures := {}\<rparr>"

text \<open>The loop of \<^verbatim>\<open>onSaveModelClick\<close>: one \<^verbatim>\<open>delete\<close> for each usage, in order.\<close>

fun deleteSignatures :: "'u ExternalApiUsage_scheme list \<Rightarrow> string set \<Rightarrow> string set" where
  "deleteSignatures [] newModifiedSignatures = newModifiedSignatures"
| "deleteSignatures (externalApiUsage # rest) newModifiedSignatures =
     deleteSignatures rest (newModifiedSignatures - {signature externalApiUsage})"

definition onSaveModelClick ::
  "'u ExternalApiUsage_scheme list \<Rightarrow> 'm ModeledMethods \<Rightarrow> ('m, 'u, 'v) ModelEditor \<Rightarrow> ('m, 'u, 'v) ModelEditor" where
  "onSaveModelClick usages methods s =
     s\<lparr>posted := posted s @ [SaveModeledMethods usages methods],
       modifiedSignatures := deleteSignatures usages (modifiedSignatures s)\<rparr>"

subsection \<open>The invariant of the data model\<close>

text \<open>Every signature marked as modified has an entry in the map of modeled methods.\<close>

definition modifiedAreModeled :: "('m, 'u, 'v) ModelEditor \<Rightarrow> bool" where
  "modifiedAreModeled s \<longleftrightarrow> modifiedSignatures s \<subseteq> dom (modeledMethods s)"

section \<open>Telemetry (telemetry.ts)\<close>

text \<open>The key is injected at build time; the source holds this placeholder.\<close>

definition key :: string where
  "key = ''REPLACE-APP-INSIGHTS-KEY''"

text \<open>
  \<^verbatim>\<open>Extension<any>\<close>: the two values \<^verbatim>\<open>initializeTelemetry\<close> reads,
  \<^verbatim>\<open>extension.id\<close> and \<^verbatim>\<open>extension.packageJSON.version\<close>.
\<close>

record Extension =
  extensionId :: string
  packageJSONVersion :: string

text \<open>
  An \<^verbatim>\<open>ExtensionContext\<close> is a shared mutable object: it is held by reference, and
  its \<^verbatim>\<open>subscriptions\<close> array lives in the process state under that reference.
\<close>

type_synonym ExtensionContext = nat

datatype TelemetryReporter = TelemetryReporter string string string bool

text \<open>
  The fields of a \<^verbatim>\<open>TelemetryListener\<close>: the constructor's four parameter
  properties and the optional \<^verbatim>\<open>reporter\<close>, undefined until one is created.
\<close>

record TelemetryListener =
  id' :: string
  version :: string
  key' :: string
  ctx :: ExtensionContext
  reporter :: "TelemetryReporter option"

text \<open>
  The process state \<^verbatim>\<open>initializeTelemetry\<close> works on: the module's global
  \<^verbatim>\<open>telemetryListener\<close>, the \<^verbatim>\<open>subscriptions\<close> of every extension context,
  and the listeners whose asynchronous \<^verbatim>\<open>initialize()\<close> was started and not
  awaited (\<^verbatim>\<open>void telemetryListener.initialize()\<close>).
\<close>

record Process =
  telemetryListener :: "TelemetryListener option"
  subscriptions :: "ExtensionContext \<Rightarrow> TelemetryListener list"
  initializing :: "TelemetryListener list"

text \<open>
  The result is the error thrown, if any, and the process state the call leaves. The
  \<^verbatim>\<open>throw\<close> is the first statement that can run, so the state it leaves is the
  state it found.
\<close>

definition initializeTelemetry :: "Extension \<Rightarrow> ExtensionContext \<Rightarrow> Process \<Rightarrow> error option \<times> Process" where
  "initializeTelemetry extension c p =
     (if telemetryListener p \<noteq> None then
        (Some (Error ''Telemetry is already initialized''), p)
      else
        (let l = \<lparr>id' = extensionId extension,
                   version = packageJSONVersion extension,
                   key' = key,
                   ctx = c,
                   reporter = None\<rparr>
         in (None,
             p\<lparr>telemetryListener := Some l,
               initializing := initializing p @ [l],
               subscriptions := (subscriptions p)(c := subscriptions p c @ [l])\<rparr>)))"

section \<open>Helper facts\<close>

lemma filterEntries_Some:
  "filterEntries p obj k = Some v \<longleftrightarrow> obj k = Some v \<and> p v"
  by (auto simp: filterEntries_def split: option.splits)

lemma filterEntries_None:
  "filterEntries p obj k = None \<longleftrightarrow> (obj k = None \<or> (\<exists>v. obj k = Some v \<and> \<not> p v))"
  by (auto simp: filterEntries_def split: option.splits)

lemma addModeledMethods_lookup:
  "modeledMethods (addModeledMethods ms s) k =
     (case modeledMethods s k of
        None \<Rightarrow> ms k
      | Some v \<Rightarrow> (if type v \<noteq> ''none'' then Some v else ms k))"
  by (simp add: addModeledMethods_def map_add_def filterEntries_def split: option.splits)

lemma deleteSignatures_eq:
  "deleteSignatures usages S = S - signature ` set usages"
  by (induction usages arbitrary: S) auto

lemma listener_own_origin:
  "listener w s \<lparr>origin = w, data = Message msg\<rparr> =
     (case msg of
        SetModelEditorViewState v \<Rightarrow> Inr (s\<lparr>viewState := Some v\<rparr>)
      | SetExternalApiUsages us \<Rightarrow> Inr (s\<lparr>externalApiUsages := us\<rparr>)
      | LoadModeledMethods ms \<Rightarrow> Inr (loadModeledMethods ms s)
      | AddModeledMethods ms \<Rightarrow> Inr (addModeledMethods ms s)
      | SetInProgressMethods packageName ps \<Rightarrow>
          Inr (s\<lparr>inProgressMethods := setPackageMethods (inProgressMethods s) packageName (set ps)\<rparr>))"
  by (simp split: ToModelEditorMessage.splits)

lemma listener_modifiedSignatures:
  assumes "listener w s evt = Inr s'"
  shows "modifiedSignatures s' =
           modifiedSignatures s \<union>
           (if origin evt = w then
              (case data evt of Message (AddModeledMethods ms) \<Rightarrow> dom ms | _ \<Rightarrow> {})
            else {})"
  using assms
  by (auto simp: loadModeledMethods_def addModeledMethods_def assertNever_def
      split: if_splits EventData.splits ToModelEditorMessage.splits)

section \<open>The claims\<close>

text \<open>
  C1. Merging a batch of generated models (the \<^verbatim>\<open>addModeledMethods\<close> message)
  replaces the entry of a signature only if the signature has no entry or its entry has
  type \<^verbatim>\<open>"none"\<close>: an entry of any other type is kept as it is, also when the batch
  holds a different model for its signature; an entry that is absent or
  \<^verbatim>\<open>"none"\<close> becomes what the batch holds for the signature.
\<close>

theorem addModeledMethods_keeps_modeled_entries:
  "listener w s \<lparr>origin = w, data = Message (AddModeledMethods ms)\<rparr> = Inr (addModeledMethods ms s)
   \<and> (\<forall>k v. modeledMethods s k = Some v \<and> type v \<noteq> ''none''
          \<longrightarrow> modeledMethods (addModeledMethods ms s) k = Some v)
   \<and> (\<forall>k. modeledMethods (addModeledMethods ms s) k \<noteq> modeledMethods s k
          \<longrightarrow> modeledMethods s k = None \<or> (\<exists>v. modeledMethods s k = Some v \<and> type v = ''none''))
   \<and> (\<forall>k. modeledMethods s k = None \<or> (\<exists>v. modeledMethods s k = Some v \<and> type v = ''none'')
          \<longrightarrow> modeledMethods (addModeledMethods ms s) k = ms k)"
proof (intro conjI allI impI)
  show "listener w s \<lparr>origin = w, data = Message (AddModeledMethods ms)\<rparr> = Inr (addModeledMethods ms s)"
    by simp
next
  fix k v
  assume "modeledMethods s k = Some v \<and> type v \<noteq> ''none''"
  then show "modeledMethods (addModeledMethods ms s) k = Some v"
    by (simp add: addModeledMethods_lookup)
next
  fix k
  assume changed: "modeledMethods (addModeledMethods ms s) k \<noteq> modeledMethods s k"
  show "modeledMethods s k = None \<or> (\<exists>v. modeledMethods s k = Some v \<and> type v = ''none'')"
  proof (cases "modeledMethods s k")
    case None
    then show ?thesis by simp
  next
    case (Some v)
    with changed have "type v = ''none''"
      by (auto simp: addModeledMethods_lookup split: if_splits)
    with Some show ?thesis by simp
  qed
next
  fix k
  assume "modeledMethods s k = None \<or> (\<exists>v. modeledMethods s k = Some v \<and> type v = ''none'')"
  then show "modeledMethods (addModeledMethods ms s) k = ms k"
    by (auto simp: addModeledMethods_lookup)
qed

theorem addModeledMethods_keeps_modeled_entries_witness:
  "modeledMethods (initialState None [] [''a'' \<mapsto> \<lparr>type = ''sink''\<rparr>, ''b'' \<mapsto> \<lparr>type = ''none''\<rparr>] False
        :: (unit, unit, unit) ModelEditor) ''a'' = Some \<lparr>type = ''sink''\<rparr>
   \<and> type \<lparr>type = ''sink''\<rparr> \<noteq> ''none''
   \<and> modeledMethods (addModeledMethods [''a'' \<mapsto> \<lparr>type = ''source''\<rparr>, ''b'' \<mapsto> \<lparr>type = ''summary''\<rparr>]
        (initialState None [] [''a'' \<mapsto> \<lparr>type = ''sink''\<rparr>, ''b'' \<mapsto> \<lparr>type = ''none''\<rparr>] False
        :: (unit, unit, unit) ModelEditor)) ''a'' = Some \<lparr>type = ''sink''\<rparr>
   \<and> modeledMethods (addModeledMethods [''a'' \<mapsto> \<lparr>type = ''source''\<rparr>, ''b'' \<mapsto> \<lparr>type = ''summary''\<rparr>]
        (initialState None [] [''a'' \<mapsto> \<lparr>type = ''sink''\<rparr>, ''b'' \<mapsto> \<lparr>type = ''none''\<rparr>] False
        :: (unit, unit, unit) ModelEditor)) ''b'' = Some \<lparr>type = ''summary''\<rparr>
   \<and> modeledMethods (initialState None [] [''a'' \<mapsto> \<lparr>type = ''sink''\<rparr>, ''b'' \<mapsto> \<lparr>type = ''none''\<rparr>] False
        :: (unit, unit, unit) ModelEditor) ''b'' = Some \<lparr>type = ''none''\<rparr>"
  using addModeledMethods_keeps_modeled_entries
    [of "''w''" "initialState None [] [''a'' \<mapsto> \<lparr>type = ''sink''\<rparr>, ''b'' \<mapsto> \<lparr>type = ''none''\<rparr>] False
        :: (unit, unit, unit) ModelEditor"
        "[''a'' \<mapsto> \<lparr>type = ''source''\<rparr>, ''b'' \<mapsto> \<lparr>type = ''summary''\<rparr>]"]
  by (simp add: initialState_def)

text \<open>
  C2, as the spec states it: triggering a save leaves the set of modified signatures as it
  is until the save is known to have succeeded. The view does otherwise. After one edit
  and one click on "Save all", the save message has only been posted, nothing has been
  received, and the signature is no longer in the set.
\<close>

theorem onSaveAllClick_clears_before_confirmation_counterexample:
  "modifiedSignatures
     (onChange ''sink'' \<lparr>signature = ''a''\<rparr> \<lparr>type = ''sink''\<rparr>
        (initialState None [\<lparr>signature = ''a''\<rparr>] Map.empty False :: (unit, unit, unit) ModelEditor)) = {''a''}
   \<and> posted
     (onSaveAllClick (onChange ''sink'' \<lparr>signature = ''a''\<rparr> \<lparr>type = ''sink''\<rparr>
        (initialState None [\<lparr>signature = ''a''\<rparr>] Map.empty False :: (unit, unit, unit) ModelEditor)))
     = [SaveModeledMethods [\<lparr>signature = ''a''\<rparr>] [''a'' \<mapsto> \<lparr>type = ''sink''\<rparr>]]
   \<and> modifiedSignatures
     (onSaveAllClick (onChange ''sink'' \<lparr>signature = ''a''\<rparr> \<lparr>type = ''sink''\<rparr>
        (initialState None [\<lparr>signature = ''a''\<rparr>] Map.empty False :: (unit, unit, unit) ModelEditor)))
     \<noteq> {''a''}"
  by (simp add: onSaveAllClick_def onChange_def initialState_def)

text \<open>
  C2, amended. "Save all" posts one \<^verbatim>\<open>saveModeledMethods\<close> message with the current
  usages and modeled methods and, in the same step, empties the set of modified
  signatures; the map of modeled methods is untouched. The view has no message that
  reports how the save went: whatever event the listener handles next, a signature is
  in the set afterwards only as a key of an \<^verbatim>\<open>addModeledMethods\<close> batch.
\<close>

theorem onSaveAllClick_clears_at_once:
  "posted (onSaveAllClick s) = posted s @ [SaveModeledMethods (externalApiUsages s) (modeledMethods s)]
   \<and> modifiedSignatures (onSaveAllClick s) = {}
   \<and> modeledMethods (onSaveAllClick s) = modeledMethods s
   \<and> (\<forall>w evt s' k. listener w (onSaveAllClick s) evt = Inr s' \<and> k \<in> modifiedSignatures s'
         \<longrightarrow> (\<exists>ms. data evt = Message (AddModeledMethods ms) \<and> k \<in> dom ms))"
proof (intro conjI allI impI)
  fix w evt s' k
  assume h: "listener w (onSaveAllClick s) evt = Inr s' \<and> k \<in> modifiedSignatures s'"
  have "modifiedSignatures (onSaveAllClick s) = {}"
    by (simp add: onSaveAllClick_def)
  with h listener_modifiedSignatures [of w "onSaveAllClick s" evt s']
  show "\<exists>ms. data evt = Message (AddModeledMethods ms) \<and> k \<in> dom ms"
    by (auto split: if_splits EventData.splits ToModelEditorMessage.splits)
qed (simp_all add: onSaveAllClick_def)

theorem onSaveAllClick_clears_at_once_witness:
  "listener ''w'' (onSaveAllClick (initialState None [] Map.empty False :: (unit, unit, unit) ModelEditor))
       \<lparr>origin = ''w'', data = Message (AddModeledMethods [''a'' \<mapsto> \<lparr>type = ''sink''\<rparr>])\<rparr>
     = Inr (addModeledMethods [''a'' \<mapsto> \<lparr>type = ''sink''\<rparr>]
         (onSaveAllClick (initialState None [] Map.empty False)))
   \<and> ''a'' \<in> modifiedSignatures (addModeledMethods [''a'' \<mapsto> \<lparr>type = ''sink''\<rparr>]
         (onSaveAllClick (initialState None [] Map.empty False :: (unit, unit, unit) ModelEditor)))
   \<and> (\<exists>ms :: unit ModeledMethods.
         data (\<lparr>origin = ''w'', data = Message (AddModeledMethods [''a'' \<mapsto> \<lparr>type = ''sink''\<rparr>])\<rparr>
               :: (unit, unit, unit) MessageEvent)
           = Message (AddModeledMethods ms) \<and> ''a'' \<in> dom ms)"
  using onSaveAllClick_clears_at_once
    [of "initialState None [] Map.empty False :: (unit, unit, unit) ModelEditor"]
  by (simp add: addModeledMethods_def)

text \<open>
  C3. Applying a batch of generated models never removes or replaces a modeled method
  whose type is not \<^verbatim>\<open>"none"\<close> under a signature that is not a key of the batch: the
  entry is in the merged map, unchanged.
\<close>

theorem addModeledMethods_keeps_entries_outside_batch:
  assumes "modeledMethods s k = Some v" and "type v \<noteq> ''none''" and "k \<notin> dom ms"
  shows "modeledMethods (addModeledMethods ms s) k = Some v"
  using assms by (simp add: addModeledMethods_lookup)

theorem addModeledMethods_keeps_entries_outside_batch_witness:
  "modeledMethods (initialState None [] [''a'' \<mapsto> \<lparr>type = ''sink''\<rparr>] False
        :: (unit, unit, unit) ModelEditor) ''a'' = Some \<lparr>type = ''sink''\<rparr>
   \<and> type \<lparr>type = ''sink''\<rparr> \<noteq> ''none''
   \<and> ''a'' \<notin> dom [''b'' \<mapsto> \<lparr>type = ''source''\<rparr>]
   \<and> modeledMethods (addModeledMethods [''b'' \<mapsto> \<lparr>type = ''source''\<rparr>]
        (initialState None [] [''a'' \<mapsto> \<lparr>type = ''sink''\<rparr>] False
        :: (unit, unit, unit) ModelEditor)) ''a'' = Some \<lparr>type = ''sink''\<rparr>"
proof -
  have 1: "modeledMethods (initialState None [] [''a'' \<mapsto> \<lparr>type = ''sink''\<rparr>] False
        :: (unit, unit, unit) ModelEditor) ''a'' = Some \<lparr>type = ''sink''\<rparr>"
    by (simp add: initialState_def)
  have 2: "type \<lparr>type = ''sink''\<rparr> \<noteq> ''none''" by simp
  have 3: "''a'' \<notin> dom [''b'' \<mapsto> \<lparr>type = ''source''\<rparr>]" by simp
  from addModeledMethods_keeps_entries_outside_batch [OF 1 2 3] 1 2 3
  show ?thesis by simp
qed

text \<open>
  C4, as the spec states it: every inbound message whose tag is no known kind raises the
  unreachable-case failure. The listener checks the origin of the event first. An event
  of another origin never reaches the \<^verbatim>\<open>switch\<close>: with an unknown tag it raises
  nothing, it is logged and the listener returns.
\<close>

theorem listener_foreign_origin_unknown_tag_counterexample:
  "listener ''http://good'' (initialState None [] Map.empty False :: (unit, unit, unit) ModelEditor)
       \<lparr>origin = ''http://evil'', data = OtherTag ''bogus''\<rparr>
     = Inr ((initialState None [] Map.empty False)\<lparr>console := [''Invalid event origin http://evil'']\<rparr>)
   \<and> listener ''http://good'' (initialState None [] Map.empty False :: (unit, unit, unit) ModelEditor)
       \<lparr>origin = ''http://evil'', data = OtherTag ''bogus''\<rparr>
     \<noteq> Inl (UnknownMessageKind ''bogus'')"
  by (simp add: sanitizeOrigin_def initialState_def)

text \<open>
  C4, amended. For an event of the window's own origin, each of the five kinds of
  message runs its own handler: the view state, the usages and the in-progress methods
  of a package are set to the message's, and the modeled methods are loaded or added.
  A value whose tag is none of the five ends in the unreachable-case failure, and
  \<^verbatim>\<open>null\<close> or \<^verbatim>\<open>undefined\<close> in a \<^verbatim>\<open>TypeError\<close>; both reach the caller. The
  listener returns normally only for a message of the five kinds: nothing else is
  passed over in silence.
\<close>

theorem listener_dispatch_own_origin:
  assumes "origin evt = w"
  shows "(\<forall>v. data evt = Message (SetModelEditorViewState v)
            \<longrightarrow> listener w s evt = Inr (s\<lparr>viewState := Some v\<rparr>))
       \<and> (\<forall>us. data evt = Message (SetExternalApiUsages us)
            \<longrightarrow> listener w s evt = Inr (s\<lparr>externalApiUsages := us\<rparr>))
       \<and> (\<forall>ms. data evt = Message (LoadModeledMethods ms)
            \<longrightarrow> listener w s evt = Inr (loadModeledMethods ms s))
       \<and> (\<forall>ms. data evt = Message (AddModeledMethods ms)
            \<longrightarrow> listener w s evt = Inr (addModeledMethods ms s))
       \<and> (\<forall>packageName ps. data evt = Message (SetInProgressMethods packageName ps)
            \<longrightarrow> listener w s evt
                  = Inr (s\<lparr>inProgressMethods := (inProgressMethods s)(packageName \<mapsto> set ps)\<rparr>))
       \<and> (\<forall>t. data evt = OtherTag t \<longrightarrow> listener w s evt = Inl (UnknownMessageKind t))
       \<and> (data evt = NullOrUndefined \<longrightarrow> listener w s evt = Inl TypeError)
       \<and> (\<forall>s'. listener w s evt = Inr s' \<longrightarrow> (\<exists>msg. data evt = Message msg))"
proof (intro conjI allI impI)
  fix s'
  assume "listener w s evt = Inr s'"
  with assms show "\<exists>msg. data evt = Message msg"
    by (cases "data evt") (simp_all add: assertNever_def)
qed (simp_all add: assms assertNever_def setPackageMethods_def)

theorem listener_dispatch_own_origin_witness:
  "listener ''w'' (initialState None [] Map.empty False :: (unit, unit, bool) ModelEditor)
       \<lparr>origin = ''w'', data = Message (SetModelEditorViewState True)\<rparr>
     = Inr ((initialState None [] Map.empty False)\<lparr>viewState := Some True\<rparr>)
   \<and> listener ''w'' (initialState None [] Map.empty False :: (unit, unit, bool) ModelEditor)
       \<lparr>origin = ''w'', data = Message (SetExternalApiUsages [\<lparr>signature = ''a''\<rparr>])\<rparr>
     = Inr ((initialState None [] Map.empty False)\<lparr>externalApiUsages := [\<lparr>signature = ''a''\<rparr>]\<rparr>)
   \<and> listener ''w'' (initialState None [] Map.empty False :: (unit, unit, bool) ModelEditor)
       \<lparr>origin = ''w'', data = Message (LoadModeledMethods [''a'' \<mapsto> \<lparr>type = ''sink''\<rparr>])\<rparr>
     = Inr ((initialState None [] Map.empty False)\<lparr>modeledMethods := [''a'' \<mapsto> \<lparr>type = ''sink''\<rparr>]\<rparr>)
   \<and> listener ''w'' (initialState None [] Map.empty False :: (unit, unit, bool) ModelEditor)
       \<lparr>origin = ''w'', data = Message (AddModeledMethods [''a'' \<mapsto> \<lparr>type = ''sink''\<rparr>])\<rparr>
     = Inr ((initialState None [] Map.empty False)
              \<lparr>modeledMethods := [''a'' \<mapsto> \<lparr>type = ''sink''\<rparr>], modifiedSignatures := {''a''}\<rparr>)
   \<and> listener ''w'' (initialState None [] Map.empty False :: (unit, unit, bool) ModelEditor)
       \<lparr>origin = ''w'', data = Message (SetInProgressMethods ''pkg'' [''a''])\<rparr>
     = Inr ((initialState None [] Map.empty False)\<lparr>inProgressMethods := [''pkg'' \<mapsto> {''a''}]\<rparr>)
   \<and> listener ''w'' (initialState None [] Map.empty False :: (unit, unit, bool) ModelEditor)
       \<lparr>origin = ''w'', data = OtherTag ''bogus''\<rparr>
     = Inl (UnknownMessageKind ''bogus'')
   \<and> listener ''w'' (initialState None [] Map.empty False :: (unit, unit, bool) ModelEditor)
       \<lparr>origin = ''w'', data = NullOrUndefined\<rparr>
     = Inl TypeError"
proof -
  let ?s = "initialState None [] Map.empty False :: (unit, unit, bool) ModelEditor"
  have load: "loadModeledMethods [''a'' \<mapsto> \<lparr>type = ''sink''\<rparr>] ?s
      = ?s\<lparr>modeledMethods := [''a'' \<mapsto> \<lparr>type = ''sink''\<rparr>]\<rparr>"
    by (simp add: loadModeledMethods_def initialState_def)
  have "[''a'' \<mapsto> \<lparr>type = ''sink''\<rparr>] ++ filterEntries (\<lambda>value. type value \<noteq> ''none'') Map.empty
      = [''a'' \<mapsto> \<lparr>type = ''sink''\<rparr>]"
    by (rule ext) (simp add: map_add_def filterEntries_def)
  then have add: "addModeledMethods [''a'' \<mapsto> \<lparr>type = ''sink''\<rparr>] ?s
      = ?s\<lparr>modeledMethods := [''a'' \<mapsto> \<lparr>type = ''sink''\<rparr>], modifiedSignatures := {''a''}\<rparr>"
    by (simp add: addModeledMethods_def initialState_def)
  from listener_dispatch_own_origin
         [of "\<lparr>origin = ''w'', data = Message (SetModelEditorViewState True)\<rparr>" "''w''" ?s]
       listener_dispatch_own_origin
         [of "\<lparr>origin = ''w'', data = Message (SetExternalApiUsages [\<lparr>signature = ''a''\<rparr>])\<rparr>" "''w''" ?s]
       listener_dispatch_own_origin
         [of "\<lparr>origin = ''w'', data = Message (LoadModeledMethods [''a'' \<mapsto> \<lparr>type = ''sink''\<rparr>])\<rparr>" "''w''" ?s]
       listener_dispatch_own_origin
         [of "\<lparr>origin = ''w'', data = Message (AddModeledMethods [''a'' \<mapsto> \<lparr>type = ''sink''\<rparr>])\<rparr>" "''w''" ?s]
       listener_dispatch_own_origin
         [of "\<lparr>origin = ''w'', data = Message (SetInProgressMethods ''pkg'' [''a''])\<rparr>" "''w''" ?s]
       listener_dispatch_own_origin
         [of "\<lparr>origin = ''w'', data = OtherTag ''bogus''\<rparr>" "''w''" ?s]
       listener_dispatch_own_origin
         [of "\<lparr>origin = ''w'', data = NullOrUndefined\<rparr>" "''w''" ?s]
       load add
  show ?thesis
    by (simp add: initialState_def)
qed

text \<open>
  C5. After a batch of generated models is applied, every key of the batch is in the set
  of modified signatures, and a signature outside the batch is in the set only if it
  was there before: the new set is the old one together with the keys of the batch.
\<close>

theorem addModeledMethods_marks_batch_modified:
  "dom ms \<subseteq> modifiedSignatures (addModeledMethods ms s)
   \<and> (\<forall>k. k \<in> modifiedSignatures (addModeledMethods ms s) \<and> k \<notin> dom ms
         \<longrightarrow> k \<in> modifiedSignatures s)
   \<and> modifiedSignatures (addModeledMethods ms s) = modifiedSignatures s \<union> dom ms"
  by (auto simp: addModeledMethods_def)

theorem addModeledMethods_marks_batch_modified_witness:
  "modifiedSignatures (addModeledMethods [''b'' \<mapsto> \<lparr>type = ''source''\<rparr>]
      (onChange ''sink'' \<lparr>signature = ''a''\<rparr> \<lparr>type = ''sink''\<rparr>
        (initialState None [] Map.empty False :: (unit, unit, unit) ModelEditor))) = {''a'', ''b''}
   \<and> ''a'' \<notin> dom [''b'' \<mapsto> \<lparr>type = ''source''\<rparr>]
   \<and> ''a'' \<in> modifiedSignatures (onChange ''sink'' \<lparr>signature = ''a''\<rparr> \<lparr>type = ''sink''\<rparr>
        (initialState None [] Map.empty False :: (unit, unit, unit) ModelEditor))"
  using addModeledMethods_marks_batch_modified
    [of "[''b'' \<mapsto> \<lparr>type = ''source''\<rparr>]"
        "onChange ''sink'' \<lparr>signature = ''a''\<rparr> \<lparr>type = ''sink''\<rparr>
          (initialState None [] Map.empty False :: (unit, unit, unit) ModelEditor)"]
  by (auto simp: onChange_def initialState_def)

text \<open>
  C6. Saving one model (\<^verbatim>\<open>onSaveModelClick\<close>) removes from the set of modified
  signatures exactly the signatures of the usages it is given, whatever the set was:
  the result is the old set minus those signatures. The map of modeled methods is
  unchanged, and one save message with the given usages and methods is posted.
\<close>

theorem onSaveModelClick_removes_exactly_saved:
  "modifiedSignatures (onSaveModelClick usages methods s)
     = modifiedSignatures s - signature ` set usages
   \<and> modeledMethods (onSaveModelClick usages methods s) = modeledMethods s
   \<and> posted (onSaveModelClick usages methods s) = posted s @ [SaveModeledMethods usages methods]"
  by (simp add: onSaveModelClick_def deleteSignatures_eq)

text \<open>
  C7. \<^verbatim>\<open>loadModeledMethods\<close> seeds the map: an entry already in the map wins over
  the incoming one under the same key, a key without an entry takes the incoming one,
  and loading the same methods twice gives the state that loading them once gives.
\<close>

theorem loadModeledMethods_existing_first_idempotent:
  "listener w s \<lparr>origin = w, data = Message (LoadModeledMethods ms)\<rparr> = Inr (loadModeledMethods ms s)
   \<and> (\<forall>k v. modeledMethods s k = Some v \<longrightarrow> modeledMethods (loadModeledMethods ms s) k = Some v)
   \<and> (\<forall>k. modeledMethods s k = None \<longrightarrow> modeledMethods (loadModeledMethods ms s) k = ms k)
   \<and> loadModeledMethods ms (loadModeledMethods ms s) = loadModeledMethods ms s"
proof (intro conjI allI impI)
  have "ms ++ (ms ++ modeledMethods s) = ms ++ modeledMethods s"
    by (rule ext) (simp add: map_add_def split: option.splits)
  then show "loadModeledMethods ms (loadModeledMethods ms s) = loadModeledMethods ms s"
    by (simp add: loadModeledMethods_def)
qed (simp_all add: loadModeledMethods_def map_add_def)

theorem loadModeledMethods_existing_first_idempotent_witness:
  "modeledMethods (initialState None [] [''a'' \<mapsto> \<lparr>type = ''sink''\<rparr>] False
        :: (unit, unit, unit) ModelEditor) ''a'' = Some \<lparr>type = ''sink''\<rparr>
   \<and> modeledMethods (loadModeledMethods [''a'' \<mapsto> \<lparr>type = ''source''\<rparr>, ''b'' \<mapsto> \<lparr>type = ''summary''\<rparr>]
        (initialState None [] [''a'' \<mapsto> \<lparr>type = ''sink''\<rparr>] False
        :: (unit, unit, unit) ModelEditor)) ''a'' = Some \<lparr>type = ''sink''\<rparr>
   \<and> modeledMethods (initialState None [] [''a'' \<mapsto> \<lparr>type = ''sink''\<rparr>] False
        :: (unit, unit, unit) ModelEditor) ''b'' = None
   \<and> modeledMethods (loadModeledMethods [''a'' \<mapsto> \<lparr>type = ''source''\<rparr>, ''b'' \<mapsto> \<lparr>type = ''summary''\<rparr>]
        (initialState None [] [''a'' \<mapsto> \<lparr>type = ''sink''\<rparr>] False
        :: (unit, unit, unit) ModelEditor)) ''b'' = Some \<lparr>type = ''summary''\<rparr>"
  using loadModeledMethods_existing_first_idempotent
    [of "''w''" "initialState None [] [''a'' \<mapsto> \<lparr>type = ''sink''\<rparr>] False :: (unit, unit, unit) ModelEditor"
        "[''a'' \<mapsto> \<lparr>type = ''source''\<rparr>, ''b'' \<mapsto> \<lparr>type = ''summary''\<rparr>]"]
  by (simp add: initialState_def)

text \<open>
  C8, as the spec states it: every operation preserves that each modified signature has
  an entry in the map. \<^verbatim>\<open>addModeledMethods\<close> does not. The user sets signature
  \<^verbatim>\<open>a\<close> to a model of type \<^verbatim>\<open>"none"\<close>; a batch for \<^verbatim>\<open>b\<close> alone then
  arrives. The merge keeps only the old entries whose type is not \<^verbatim>\<open>"none"\<close>, so
  \<^verbatim>\<open>a\<close> loses its entry and is still marked as modified.
\<close>

theorem addModeledMethods_breaks_modifiedAreModeled_counterexample:
  "modifiedAreModeled
     (onChange ''none'' \<lparr>signature = ''a''\<rparr> \<lparr>type = ''none''\<rparr>
        (initialState None [\<lparr>signature = ''a''\<rparr>] Map.empty False :: (unit, unit, unit) ModelEditor))
   \<and> listener ''w''
       (onChange ''none'' \<lparr>signature = ''a''\<rparr> \<lparr>type = ''none''\<rparr>
          (initialState None [\<lparr>signature = ''a''\<rparr>] Map.empty False :: (unit, unit, unit) ModelEditor))
       \<lparr>origin = ''w'', data = Message (AddModeledMethods [''b'' \<mapsto> \<lparr>type = ''sink''\<rparr>])\<rparr>
     = Inr (addModeledMethods [''b'' \<mapsto> \<lparr>type = ''sink''\<rparr>]
         (onChange ''none'' \<lparr>signature = ''a''\<rparr> \<lparr>type = ''none''\<rparr>
            (initialState None [\<lparr>signature = ''a''\<rparr>] Map.empty False)))
   \<and> \<not> modifiedAreModeled
     (addModeledMethods [''b'' \<mapsto> \<lparr>type = ''sink''\<rparr>]
        (onChange ''none'' \<lparr>signature = ''a''\<rparr> \<lparr>type = ''none''\<rparr>
           (initialState None [\<lparr>signature = ''a''\<rparr>] Map.empty False :: (unit, unit, unit) ModelEditor)))"
  by (simp add: modifiedAreModeled_def addModeledMethods_def onChange_def initialState_def
      filterEntries_def dom_def map_add_def)

text \<open>
  C8, amended. From a state in which every modified signature has an entry,
  \<^verbatim>\<open>loadModeledMethods\<close>, a user edit and both save operations lead to such a state
  again. After \<^verbatim>\<open>addModeledMethods\<close> the modified signatures without an entry are
  exactly those that were modified, are not keys of the batch, and had an entry of type
  \<^verbatim>\<open>"none"\<close>, which the merge drops.
\<close>

theorem modifiedAreModeled_preserved_except_dropped_none:
  assumes "modifiedAreModeled s"
  shows "modifiedAreModeled (loadModeledMethods ms s)
       \<and> modifiedAreModeled (onChange modelName method model s)
       \<and> modifiedAreModeled (onSaveAllClick s)
       \<and> modifiedAreModeled (onSaveModelClick usages methods s)
       \<and> modifiedSignatures (addModeledMethods ms s) - dom (modeledMethods (addModeledMethods ms s))
           = {k \<in> modifiedSignatures s. k \<notin> dom ms \<and> (\<exists>v. modeledMethods s k = Some v \<and> type v = ''none'')}"
proof (intro conjI)
  show "modifiedAreModeled (loadModeledMethods ms s)"
    using assms by (auto simp: modifiedAreModeled_def loadModeledMethods_def)
  show "modifiedAreModeled (onChange modelName method model s)"
    using assms by (auto simp: modifiedAreModeled_def onChange_def)
  show "modifiedAreModeled (onSaveAllClick s)"
    by (simp add: modifiedAreModeled_def onSaveAllClick_def)
  show "modifiedAreModeled (onSaveModelClick usages methods s)"
    using assms by (auto simp: modifiedAreModeled_def onSaveModelClick_def deleteSignatures_eq)
  have mods: "modifiedSignatures (addModeledMethods ms s) = modifiedSignatures s \<union> dom ms"
    by (simp add: addModeledMethods_def)
  have doms: "dom (modeledMethods (addModeledMethods ms s))
      = dom ms \<union> {k. \<exists>v. modeledMethods s k = Some v \<and> type v \<noteq> ''none''}"
    by (auto simp: dom_def addModeledMethods_lookup split: option.splits if_splits)
  from assms have "modifiedSignatures s \<subseteq> dom (modeledMethods s)"
    by (simp add: modifiedAreModeled_def)
  then show "modifiedSignatures (addModeledMethods ms s) - dom (modeledMethods (addModeledMethods ms s))
           = {k \<in> modifiedSignatures s. k \<notin> dom ms \<and> (\<exists>v. modeledMethods s k = Some v \<and> type v = ''none'')}"
    unfolding mods doms by (auto simp: dom_def)
qed

theorem modifiedAreModeled_preserved_except_dropped_none_witness:
  "modifiedAreModeled
     (onChange ''none'' \<lparr>signature = ''a''\<rparr> \<lparr>type = ''none''\<rparr>
        (initialState None [\<lparr>signature = ''a''\<rparr>] Map.empty False :: (unit, unit, unit) ModelEditor))
   \<and> modifiedAreModeled
     (loadModeledMethods [''b'' \<mapsto> \<lparr>type = ''sink''\<rparr>]
       (onChange ''none'' \<lparr>signature = ''a''\<rparr> \<lparr>type = ''none''\<rparr>
        (initialState None [\<lparr>signature = ''a''\<rparr>] Map.empty False :: (unit, unit, unit) ModelEditor)))
   \<and> modifiedSignatures (addModeledMethods [''b'' \<mapsto> \<lparr>type = ''sink''\<rparr>]
       (onChange ''none'' \<lparr>signature = ''a''\<rparr> \<lparr>type = ''none''\<rparr>
        (initialState None [\<lparr>signature = ''a''\<rparr>] Map.empty False :: (unit, unit, unit) ModelEditor)))
     - dom (modeledMethods (addModeledMethods [''b'' \<mapsto> \<lparr>type = ''sink''\<rparr>]
       (onChange ''none'' \<lparr>signature = ''a''\<rparr> \<lparr>type = ''none''\<rparr>
        (initialState None [\<lparr>signature = ''a''\<rparr>] Map.empty False :: (unit, unit, unit) ModelEditor))))
     = {''a''}"
proof -
  let ?s = "onChange ''none'' \<lparr>signature = ''a''\<rparr> \<lparr>type = ''none''\<rparr>
        (initialState None [\<lparr>signature = ''a''\<rparr>] Map.empty False :: (unit, unit, unit) ModelEditor)"
  have h: "modifiedAreModeled ?s"
    by (simp add: modifiedAreModeled_def onChange_def initialState_def)
  have "{k \<in> modifiedSignatures ?s. k \<notin> dom [''b'' \<mapsto> \<lparr>type = ''sink''\<rparr>]
          \<and> (\<exists>v. modeledMethods ?s k = Some v \<and> type v = ''none'')} = {''a''}"
    by (auto simp: onChange_def initialState_def)
  with modifiedAreModeled_preserved_except_dropped_none
         [OF h, of "[''b'' \<mapsto> \<lparr>type = ''sink''\<rparr>]"] h
  show ?thesis by simp
qed

text \<open>
  C9. For an event whose origin is not the window's own, no case of the listener runs:
  the view state, the usages, the modified signatures, the in-progress methods, the
  hide flag and the modeled methods are as before and nothing is posted. The event is
  only logged as an error, and the origin in the logged line is the event's origin
  without its line feeds and carriage returns.
\<close>

theorem listener_foreign_origin_only_logs:
  assumes "origin evt \<noteq> w"
  shows "\<exists>s'. listener w s evt = Inr s'
       \<and> viewState s' = viewState s
       \<and> externalApiUsages s' = externalApiUsages s
       \<and> modifiedSignatures s' = modifiedSignatures s
       \<and> inProgressMethods s' = inProgressMethods s
       \<and> hideModeledApis s' = hideModeledApis s
       \<and> modeledMethods s' = modeledMethods s
       \<and> posted s' = posted s
       \<and> console s' = console s @ [''Invalid event origin '' @ sanitizeOrigin (origin evt)]
       \<and> sanitizeOrigin (origin evt) = filter (\<lambda>c. c \<notin> {CHR 0x0A, CHR 0x0D}) (origin evt)
       \<and> CHR 0x0A \<notin> set (sanitizeOrigin (origin evt))
       \<and> CHR 0x0D \<notin> set (sanitizeOrigin (origin evt))"
  using assms by (simp add: sanitizeOrigin_def)

theorem listener_foreign_origin_only_logs_witness:
  "origin (\<lparr>origin = ''http://evil'' @ [CHR 0x0A] @ ''x'' @ [CHR 0x0D],
            data = Message (AddModeledMethods [''a'' \<mapsto> \<lparr>type = ''sink''\<rparr>])\<rparr>
           :: (unit, unit, unit) MessageEvent) \<noteq> ''http://good''
   \<and> listener ''http://good'' (initialState None [] Map.empty False :: (unit, unit, unit) ModelEditor)
        \<lparr>origin = ''http://evil'' @ [CHR 0x0A] @ ''x'' @ [CHR 0x0D],
         data = Message (AddModeledMethods [''a'' \<mapsto> \<lparr>type = ''sink''\<rparr>])\<rparr>
     = Inr ((initialState None [] Map.empty False)\<lparr>console := [''Invalid event origin http://evilx'']\<rparr>)"
proof -
  have 1: "origin (\<lparr>origin = ''http://evil'' @ [CHR 0x0A] @ ''x'' @ [CHR 0x0D],
            data = Message (AddModeledMethods [''a'' \<mapsto> \<lparr>type = ''sink''\<rparr>])\<rparr>
           :: (unit, unit, unit) MessageEvent) \<noteq> ''http://good''"
    by simp
  from listener_foreign_origin_only_logs [OF 1, of "initialState None [] Map.empty False"] 1
  show ?thesis by (auto simp: sanitizeOrigin_def initialState_def)
qed

text \<open>
  C10. \<^verbatim>\<open>initializeTelemetry\<close> sets the global listener at most once: when the
  global is already defined the call throws and leaves the process state, and with it
  the listener, as it was; otherwise it returns without an error, with a listener
  built from the extension's id and version, the key and the context installed in the
  global. Every later call then throws.
\<close>

theorem initializeTelemetry_at_most_once:
  "(telemetryListener p \<noteq> None \<longrightarrow>
      initializeTelemetry extension c p = (Some (Error ''Telemetry is already initialized''), p))
   \<and> (telemetryListener p = None \<longrightarrow>
        fst (initializeTelemetry extension c p) = None
        \<and> telemetryListener (snd (initializeTelemetry extension c p))
            = Some \<lparr>id' = extensionId extension, version = packageJSONVersion extension,
                    key' = key, ctx = c, reporter = None\<rparr>
        \<and> (\<forall>extension2 c2.
              initializeTelemetry extension2 c2 (snd (initializeTelemetry extension c p))
                = (Some (Error ''Telemetry is already initialized''),
                   snd (initializeTelemetry extension c p))))"
  by (simp add: initializeTelemetry_def Let_def)

theorem initializeTelemetry_at_most_once_witness:
  "telemetryListener \<lparr>telemetryListener = None, subscriptions = (\<lambda>_. []), initializing = []\<rparr> = None
   \<and> initializeTelemetry \<lparr>extensionId = ''GitHub.vscode-codeql'', packageJSONVersion = ''1.8.0''\<rparr> 0
       \<lparr>telemetryListener = None, subscriptions = (\<lambda>_. []), initializing = []\<rparr>
     = (None,
        \<lparr>telemetryListener = Some \<lparr>id' = ''GitHub.vscode-codeql'', version = ''1.8.0'',
             key' = ''REPLACE-APP-INSIGHTS-KEY'', ctx = 0, reporter = None\<rparr>,
         subscriptions = (\<lambda>_. [])(0 := [\<lparr>id' = ''GitHub.vscode-codeql'', version = ''1.8.0'',
             key' = ''REPLACE-APP-INSIGHTS-KEY'', ctx = 0, reporter = None\<rparr>]),
         initializing = [\<lparr>id' = ''GitHub.vscode-codeql'', version = ''1.8.0'',
             key' = ''REPLACE-APP-INSIGHTS-KEY'', ctx = 0, reporter = None\<rparr>]\<rparr>)
   \<and> fst (initializeTelemetry \<lparr>extensionId = ''other'', packageJSONVersion = ''2''\<rparr> 1
       (snd (initializeTelemetry \<lparr>extensionId = ''GitHub.vscode-codeql'', packageJSONVersion = ''1.8.0''\<rparr> 0
          \<lparr>telemetryListener = None, subscriptions = (\<lambda>_. []), initializing = []\<rparr>)))
     = Some (Error ''Telemetry is already initialized'')
   \<and> telemetryListener (snd (initializeTelemetry \<lparr>extensionId = ''other'', packageJSONVersion = ''2''\<rparr> 1
       (snd (initializeTelemetry \<lparr>extensionId = ''GitHub.vscode-codeql'', packageJSONVersion = ''1.8.0''\<rparr> 0
          \<lparr>telemetryListener = None, subscriptions = (\<lambda>_. []), initializing = []\<rparr>))))
     = Some \<lparr>id' = ''GitHub.vscode-codeql'', version = ''1.8.0'',
             key' = ''REPLACE-APP-INSIGHTS-KEY'', ctx = 0, reporter = None\<rparr>"
  using initializeTelemetry_at_most_once
    [of "\<lparr>telemetryListener = None, subscriptions = (\<lambda>_. []), initializing = []\<rparr>"
        "\<lparr>extensionId = ''GitHub.vscode-codeql'', packageJSONVersion = ''1.8.0''\<rparr>" 0]
  by (simp add: initializeTelemetry_def Let_def key_def)

end
